theory Spec2Isabelle
  imports Complex_Main "HOL-Library.Multiset"
begin

section \<open>Values and faults\<close>

text \<open>
  The program is \<^verbatim>\<open>applications/finetune-embedding/main.py\<close>: a stratified sampler,
  the objective of a hyperparameter search, and the module-level search driver.

  Faults are values. \<open>ZeroDivisionError\<close>, \<open>IndexError\<close> and \<open>KeyError\<close> are the
  faults that the statements of the file itself can raise (a division, a list index,
  a dictionary lookup); \<open>StopIteration\<close> is what \<^verbatim>\<open>next\<close> gives on an exhausted
  generator; \<open>External\<close> stands for any fault raised inside a library call.
\<close>

datatype exn = ZeroDivisionError | StopIteration | IndexError | KeyError | External string

text \<open>
  A float is only ever written down, passed on and returned by this file, never
  computed with: \<open>Dec m e\<close> is the float that the decimal literal \<open>m\<close>e\<open>e\<close> denotes
  (\<^verbatim>\<open>0.5\<close> is \<open>Dec 5 (-1)\<close>, \<^verbatim>\<open>1e-5\<close> is \<open>Dec 1 (-5)\<close>).
\<close>

datatype pyfloat = Dec int int

section \<open>The stratified sampler\<close>

text \<open>
  \<^verbatim>\<open>int(a / b)\<close> on two Python integers: true division, then truncation towards zero.
  The quotient is taken exactly; the float quotient of two integers is correctly
  rounded, so its truncation is the same whenever \<open>a + b < 2^53\<close>, which holds for
  the size of any tensor and any batch size.
\<close>

definition int_truediv :: "int \<Rightarrow> int \<Rightarrow> exn + int" where
  "int_truediv a b =
     (if b = 0 then Inl ZeroDivisionError
      else Inr (sgn a * sgn b * (\<bar>a\<bar> div \<bar>b\<bar>)))"

record StratifiedSampler =
  n_splits :: int
  class_vector :: "int list"

definition StratifiedSampler_init :: "int list \<Rightarrow> int \<Rightarrow> exn + StratifiedSampler" where
  "StratifiedSampler_init cv batch_size =
     (case int_truediv (int (length cv)) batch_size of
        Inl e \<Rightarrow> Inl e
      | Inr n \<Rightarrow> Inr \<lparr>n_splits = n, class_vector = cv\<rparr>)"

text \<open>
  A generator is the list of the outcomes of its successive \<^verbatim>\<open>next\<close> calls: a value
  yielded or a fault raised. \<^verbatim>\<open>next\<close> on a fresh generator gives the first outcome,
  and \<open>StopIteration\<close> when there is none.
\<close>

type_synonym 'a generator = "(exn + 'a) list"

definition next_gen :: "'a generator \<Rightarrow> exn + 'a" where
  "next_gen g = (case g of [] \<Rightarrow> Inl StopIteration | r # _ \<Rightarrow> r)"

text \<open>
  The split object built by \<^verbatim>\<open>StratifiedShuffleSplit(n_splits=..., test_size=0.5)\<close>.
  The routine itself belongs to a library: \<open>split\<close> below is a parameter, the generator
  that \<^verbatim>\<open>s.split(X, y)\<close> returns in the call at hand, and \<open>randn\<close> is the feature
  matrix drawn by \<^verbatim>\<open>torch.randn\<close>. The source also calls \<^verbatim>\<open>s.get_n_splits(X, y)\<close> and
  drops what it returns; a fault of the library anywhere between the construction of
  the split object and the first \<^verbatim>\<open>next\<close> is the first outcome of the generator.
\<close>

record StratifiedShuffleSplit =
  sss_n_splits :: int
  sss_test_size :: pyfloat

type_synonym 'x splitter =
  "StratifiedShuffleSplit \<Rightarrow> 'x \<Rightarrow> int list \<Rightarrow> (nat list \<times> nat list) generator"

definition hstack :: "nat list list \<Rightarrow> nat list" where
  "hstack arrays = concat arrays"

definition gen_sample_array ::
  "(nat \<Rightarrow> nat \<Rightarrow> 'x) \<Rightarrow> 'x splitter \<Rightarrow> StratifiedSampler \<Rightarrow> exn + nat list" where
  "gen_sample_array randn split self =
     (let s = \<lparr>sss_n_splits = n_splits self, sss_test_size = Dec 5 (-1)\<rparr>;
          X = randn (length (class_vector self)) 2;
          y = class_vector self
      in case next_gen (split s X y) of
           Inl e \<Rightarrow> Inl e
         | Inr (train_index, test_index) \<Rightarrow> Inr (hstack [train_index, test_index]))"

definition sampler_iter ::
  "(nat \<Rightarrow> nat \<Rightarrow> 'x) \<Rightarrow> 'x splitter \<Rightarrow> StratifiedSampler \<Rightarrow> exn + nat list" where
  "sampler_iter randn split self = gen_sample_array randn split self"

definition sampler_len :: "StratifiedSampler \<Rightarrow> nat" where
  "sampler_len self = length (class_vector self)"



text \<open>Doubles for the two library calls, used to run the sampler on concrete inputs.\<close>

definition randn_zero :: "nat \<Rightarrow> nat \<Rightarrow> int list list" where
  "randn_zero rows cols = replicate rows (replicate cols 0)"

definition split_halves :: "int list list splitter" where
  "split_halves s X y =
     replicate (nat (sss_n_splits s))
       (Inr ([length y div 2..<length y], [0..<length y div 2]))"

section \<open>Library objects, calls and programs\<close>

text \<open>
  Objects that only libraries look into (data frames, datasets, loaders, the model,
  callbacks, the logger, the trainer, a trial, the study) are opaque references.
\<close>

datatype ref = Ref nat

datatype hval = IntV int | FloatV pyfloat

type_synonym pydict = "(string \<times> hval) list"

type_synonym metrics = "(string \<times> pyfloat) list"

record FrozenTrial =
  trial_value :: pyfloat
  trial_params :: pydict

text \<open>What \<^verbatim>\<open>print\<close> is given: a dictionary, a key view, or an f-string in pieces.\<close>

datatype fpart = Lit string | IntF int | FloatF pyfloat | DictF pydict

datatype printed = PDict pydict | PKeys "string list" | PFmt "fpart list"

text \<open>
  Every step of the file that can raise, with its arguments: the calls that leave the
  file, and the three operations of the file itself that can fail, which are the
  construction of the sampler and the two subscripts on the test results.
\<close>

datatype call =
    is_SuggestInt: SuggestInt ref string int int bool
  | is_SuggestCategorical: SuggestCategorical ref string "int list"
  | is_SuggestLoguniform: SuggestLoguniform ref string pyfloat pyfloat
  | is_Print: Print printed
  | LoadAndSplitData
  | NewEmbeddingDataset ref ref ref
  | TorchTensor ref
  | NewStratifiedSampler "int list" int
  | is_NewDataLoader: NewDataLoader ref int "StratifiedSampler option"
  | is_NewSimilarityModel: NewSimilarityModel int int pyfloat pyfloat
  | NewModelCheckpoint string string string int string
  | NewTensorBoardLogger string string
  | is_LogHyperparams: LogHyperparams ref pydict
  | is_NewTrainer: NewTrainer int ref "ref list"
  | is_Fit: Fit ref ref ref ref
  | is_Test: Test ref ref ref
  | Subscript0
  | SubscriptKey string
  | CreateStudy string
  | is_Optimize: Optimize ref int
  | GetTrials ref
  | GetBestTrial ref


text \<open>
  The collaborators are parameters: each is a function of its arguments and of the
  state \<open>'w\<close> of the world outside the file, returning a value or a fault and the new
  state. \<open>study_optimize\<close> receives the objective as a callback.
\<close>

record 'w collaborators =
  trial_suggest_int :: "ref \<Rightarrow> string \<Rightarrow> int \<Rightarrow> int \<Rightarrow> bool \<Rightarrow> 'w \<Rightarrow> (exn + int) \<times> 'w"
  trial_suggest_categorical :: "ref \<Rightarrow> string \<Rightarrow> int list \<Rightarrow> 'w \<Rightarrow> (exn + int) \<times> 'w"
  trial_suggest_loguniform :: "ref \<Rightarrow> string \<Rightarrow> pyfloat \<Rightarrow> pyfloat \<Rightarrow> 'w \<Rightarrow> (exn + pyfloat) \<times> 'w"
  load_and_split_data ::
    "'w \<Rightarrow> (exn + ref \<times> ref \<times> ref \<times> ref \<times> ref \<times> ref \<times> ref \<times> ref \<times> ref) \<times> 'w"
  EmbeddingDataset :: "ref \<Rightarrow> ref \<Rightarrow> ref \<Rightarrow> 'w \<Rightarrow> (exn + ref) \<times> 'w"
  torch_tensor :: "ref \<Rightarrow> 'w \<Rightarrow> (exn + int list) \<times> 'w"
  DataLoader :: "ref \<Rightarrow> int \<Rightarrow> StratifiedSampler option \<Rightarrow> 'w \<Rightarrow> (exn + ref) \<times> 'w"
  SimilarityModel :: "int \<Rightarrow> int \<Rightarrow> pyfloat \<Rightarrow> pyfloat \<Rightarrow> 'w \<Rightarrow> (exn + ref) \<times> 'w"
  ModelCheckpoint :: "string \<Rightarrow> string \<Rightarrow> string \<Rightarrow> int \<Rightarrow> string \<Rightarrow> 'w \<Rightarrow> (exn + ref) \<times> 'w"
  TensorBoardLogger :: "string \<Rightarrow> string \<Rightarrow> 'w \<Rightarrow> (exn + ref) \<times> 'w"
  logger_log_hyperparams :: "ref \<Rightarrow> pydict \<Rightarrow> 'w \<Rightarrow> (exn + unit) \<times> 'w"
  pl_Trainer :: "int \<Rightarrow> ref \<Rightarrow> ref list \<Rightarrow> 'w \<Rightarrow> (exn + ref) \<times> 'w"
  trainer_fit :: "ref \<Rightarrow> ref \<Rightarrow> ref \<Rightarrow> ref \<Rightarrow> 'w \<Rightarrow> (exn + unit) \<times> 'w"
  trainer_test :: "ref \<Rightarrow> ref \<Rightarrow> ref \<Rightarrow> 'w \<Rightarrow> (exn + metrics list) \<times> 'w"
  optuna_create_study :: "string \<Rightarrow> 'w \<Rightarrow> (exn + ref) \<times> 'w"
  study_optimize ::
    "ref \<Rightarrow> (ref \<Rightarrow> 'w \<Rightarrow> (exn + pyfloat) \<times> 'w) \<Rightarrow> int \<Rightarrow> 'w \<Rightarrow> (exn + unit) \<times> 'w"
  study_trials :: "ref \<Rightarrow> 'w \<Rightarrow> (exn + FrozenTrial list) \<times> 'w"
  study_best_trial :: "ref \<Rightarrow> 'w \<Rightarrow> (exn + FrozenTrial) \<times> 'w"

text \<open>
  A program takes the state of the world and returns its outcome, the new state, and
  the calls it made in order, each with the fault it raised, if any. The trace is
  there to state what was called, how often and with what; the source has no such log.
\<close>

type_synonym trace = "(call \<times> exn option) list"

type_synonym ('w, 'a) prog = "'w \<Rightarrow> (exn + 'a) \<times> 'w \<times> trace"

definition retP :: "'a \<Rightarrow> ('w, 'a) prog" where
  "retP a = (\<lambda>w. (Inr a, w, []))"

definition bindP :: "('w, 'a) prog \<Rightarrow> ('a \<Rightarrow> ('w, 'b) prog) \<Rightarrow> ('w, 'b) prog" where
  "bindP m f =
     (\<lambda>w. case m w of
        (Inl e, w1, t1) \<Rightarrow> (Inl e, w1, t1)
      | (Inr a, w1, t1) \<Rightarrow> (case f a w1 of (r, w2, t2) \<Rightarrow> (r, w2, t1 @ t2)))"

definition outcome :: "exn + 'a \<Rightarrow> exn option" where
  "outcome r = (case r of Inl e \<Rightarrow> Some e | Inr _ \<Rightarrow> None)"

definition callP :: "call \<Rightarrow> ('w \<Rightarrow> (exn + 'a) \<times> 'w) \<Rightarrow> ('w, 'a) prog" where
  "callP c d = (\<lambda>w. case d w of (r, w1) \<Rightarrow> (r, w1, [(c, outcome r)]))"

definition stepP :: "call \<Rightarrow> exn + 'a \<Rightarrow> ('w, 'a) prog" where
  "stepP c r = (\<lambda>w. (r, w, [(c, outcome r)]))"

definition printP :: "printed \<Rightarrow> ('w, unit) prog" where
  "printP p = (\<lambda>w. (Inr (), w, [(Print p, None)]))"



section \<open>The objective\<close>

fun str_nat :: "nat \<Rightarrow> string" where
  "str_nat n =
     (if n < 10 then [char_of (48 + n)]
      else str_nat (n div 10) @ [char_of (48 + n mod 10)])"

definition str_int :: "int \<Rightarrow> string" where
  "str_int i = (if i < 0 then CHR ''-'' # str_nat (nat (- i)) else str_nat (nat i))"

definition index0 :: "'a list \<Rightarrow> exn + 'a" where
  "index0 xs = (case xs of [] \<Rightarrow> Inl IndexError | x # _ \<Rightarrow> Inr x)"

definition getitem :: "(string \<times> 'v) list \<Rightarrow> string \<Rightarrow> exn + 'v" where
  "getitem d k = (case map_of d k of None \<Rightarrow> Inl KeyError | Some v \<Rightarrow> Inr v)"

definition objective :: "'w collaborators \<Rightarrow> ref \<Rightarrow> ('w, pyfloat) prog" where
  "objective C trial =
    (let embedding_size = 1536; dropout_fraction = Dec 5 (-1) in
     bindP (callP (SuggestInt trial ''n_dims'' (embedding_size div 2) (embedding_size * 3) True)
              (trial_suggest_int C trial ''n_dims'' (embedding_size div 2) (embedding_size * 3) True))
       (\<lambda>n_dims.
     bindP (callP (SuggestCategorical trial ''batch_size'' [32, 64, 128])
              (trial_suggest_categorical C trial ''batch_size'' [32, 64, 128]))
       (\<lambda>batch_size.
     bindP (callP (SuggestLoguniform trial ''lr'' (Dec 1 (-5)) (Dec 1 (-3)))
              (trial_suggest_loguniform C trial ''lr'' (Dec 1 (-5)) (Dec 1 (-3))))
       (\<lambda>lr.
     let name = ''similarity-model-'' @ str_int n_dims @ ''-'' @ str_int batch_size in
     bindP (printP (PDict [(''n_dims'', IntV n_dims), (''batch_size'', IntV batch_size),
                           (''lr'', FloatV lr)]))
       (\<lambda>_.
     bindP (callP LoadAndSplitData (load_and_split_data C))
       (\<lambda>(train_df1, val_df1, test_df1, train_df2, val_df2, test_df2,
          train_target, val_target, test_target).
     bindP (callP (NewEmbeddingDataset train_df1 train_df2 train_target)
              (EmbeddingDataset C train_df1 train_df2 train_target))
       (\<lambda>train_dataset.
     bindP (callP (NewEmbeddingDataset val_df1 val_df2 val_target)
              (EmbeddingDataset C val_df1 val_df2 val_target))
       (\<lambda>val_dataset.
     bindP (callP (NewEmbeddingDataset test_df1 test_df2 test_target)
              (EmbeddingDataset C test_df1 test_df2 test_target))
       (\<lambda>test_dataset.
     bindP (callP (TorchTensor train_target) (torch_tensor C train_target))
       (\<lambda>cv.
     bindP (stepP (NewStratifiedSampler cv batch_size) (StratifiedSampler_init cv batch_size))
       (\<lambda>sampler.
     bindP (callP (NewDataLoader train_dataset batch_size (Some sampler))
              (DataLoader C train_dataset batch_size (Some sampler)))
       (\<lambda>train_loader.
     bindP (callP (NewDataLoader val_dataset batch_size None)
              (DataLoader C val_dataset batch_size None))
       (\<lambda>val_loader.
     bindP (callP (NewDataLoader test_dataset batch_size None)
              (DataLoader C test_dataset batch_size None))
       (\<lambda>test_loader.
     bindP (callP (NewSimilarityModel embedding_size n_dims dropout_fraction lr)
              (SimilarityModel C embedding_size n_dims dropout_fraction lr))
       (\<lambda>model.
     let filename = name @ ''-{epoch:02d}-{val_loss:.2f}-{val_recall:.2f}-{val_f1:.2f}'' in
     bindP (callP (NewModelCheckpoint ''val_f1'' ''checkpoints_stratified'' filename 1 ''max'')
              (ModelCheckpoint C ''val_f1'' ''checkpoints_stratified'' filename 1 ''max''))
       (\<lambda>f1_check.
     bindP (callP (NewTensorBoardLogger ''tb_stratified'' name)
              (TensorBoardLogger C ''tb_stratified'' name))
       (\<lambda>logger.
     let hparams = [(''embedding_size'', IntV embedding_size),
                    (''dropout_fraction'', FloatV dropout_fraction),
                    (''batch_size'', IntV batch_size),
                    (''lr'', FloatV lr),
                    (''n_dims'', IntV n_dims)] in
     bindP (callP (LogHyperparams logger hparams) (logger_log_hyperparams C logger hparams))
       (\<lambda>_.
     bindP (callP (NewTrainer 400 logger [f1_check]) (pl_Trainer C 400 logger [f1_check]))
       (\<lambda>trainer.
     bindP (callP (Fit trainer model train_loader val_loader)
              (trainer_fit C trainer model train_loader val_loader))
       (\<lambda>_.
     bindP (callP (Test trainer model test_loader) (trainer_test C trainer model test_loader))
       (\<lambda>test_results.
     bindP (stepP Subscript0 (index0 test_results))
       (\<lambda>first.
     bindP (printP (PKeys (map fst first)))
       (\<lambda>_.
     bindP (stepP (SubscriptKey ''test_f1'') (getitem first ''test_f1''))
       (\<lambda>test_loss.
     retP test_loss))))))))))))))))))))))))"

section \<open>The search driver\<close>


section \<open>What a program does at every step\<close>

text \<open>
  \<open>every_step P m\<close>: in every run of \<open>m\<close>, every step made satisfies \<open>P\<close>.
  \<open>propagates m\<close>: in every run of \<open>m\<close>, every step but the last returned, and the run
  ends in a fault exactly when its last step raised it.
\<close>

definition every_step :: "(call \<times> exn option \<Rightarrow> bool) \<Rightarrow> ('w, 'a) prog \<Rightarrow> bool" where
  "every_step P m = (\<forall>w. list_all P (snd (snd (m w))))"


section \<open>Doubles for the collaborators\<close>

text \<open>
  Deterministic doubles, used to run the objective and the driver on concrete inputs.
  The state of the world is the number of trainings run so far. The trial fixes
  \<open>n_dims = 1536\<close>, \<open>batch_size = 32\<close> and \<open>lr = 1e-4\<close>; there are 64 training labels;
  the test evaluation reports a loss and an F1 score.
\<close>

definition stub :: "nat collaborators" where
  "stub = \<lparr>
     trial_suggest_int = (\<lambda>trial name low high log w. (Inr 1536, w)),
     trial_suggest_categorical = (\<lambda>trial name choices w. (Inr 32, w)),
     trial_suggest_loguniform = (\<lambda>trial name low high w. (Inr (Dec 1 (-4)), w)),
     load_and_split_data =
       (\<lambda>w. (Inr (Ref 1, Ref 2, Ref 3, Ref 4, Ref 5, Ref 6, Ref 7, Ref 8, Ref 9), w)),
     EmbeddingDataset = (\<lambda>df1 df2 target w. (Inr (case target of Ref n \<Rightarrow> Ref (10 + n)), w)),
     torch_tensor = (\<lambda>target w. (Inr (replicate 32 0 @ replicate 32 1), w)),
     DataLoader = (\<lambda>dataset batch_size sampler w. (Inr (case dataset of Ref n \<Rightarrow> Ref (10 + n)), w)),
     SimilarityModel = (\<lambda>embedding_size n_dims dropout_fraction lr w. (Inr (Ref 40), w)),
     ModelCheckpoint = (\<lambda>monitor dirpath filename save_top_k mode w. (Inr (Ref 41), w)),
     TensorBoardLogger = (\<lambda>save_dir name w. (Inr (Ref 42), w)),
     logger_log_hyperparams = (\<lambda>logger params w. (Inr (), w)),
     pl_Trainer = (\<lambda>max_epochs logger callbacks w. (Inr (Ref 43), w)),
     trainer_fit = (\<lambda>trainer model train_loader val_loader w. (Inr (), Suc w)),
     trainer_test =
       (\<lambda>trainer model test_loader w.
          (Inr [[(''test_loss'', Dec 31 (-2)), (''test_f1'', Dec 75 (-2))]], w)),
     optuna_create_study = (\<lambda>direction w. (Inr (Ref 0), w)),
     study_optimize = (\<lambda>study func n_trials w. (Inr (), w)),
     study_trials = (\<lambda>study w. (Inr [], w)),
     study_best_trial = (\<lambda>study w. (Inl (External ''ValueError''), w))
   \<rparr>"






section \<open>The sampler: construction and length\<close>

lemma int_truediv_pos:
  "0 < b \<Longrightarrow> int_truediv (int n) b = Inr (int n div b)"
  by (cases "n = 0") (simp_all add: int_truediv_def)

lemma init_pos:
  "0 < B \<Longrightarrow> StratifiedSampler_init cv B
     = Inr \<lparr>n_splits = int (length cv) div B, class_vector = cv\<rparr>"
  by (simp add: StratifiedSampler_init_def int_truediv_pos)

lemma init_class_vector:
  "StratifiedSampler_init cv B = Inr self \<Longrightarrow> class_vector self = cv"
  by (auto simp: StratifiedSampler_init_def split: sum.splits)



text \<open>
  C3. The length of a sampler is the number of labels it was built from, whatever the
  batch size was and whatever \<open>n_splits\<close> holds.
\<close>

theorem sampler_len_is_N:
  "StratifiedSampler_init cv B = Inr self \<Longrightarrow>
     sampler_len self = length cv \<and> (\<forall>k. sampler_len (self\<lparr>n_splits := k\<rparr>) = length cv)"
  by (auto simp: sampler_len_def dest: init_class_vector)

theorem sampler_len_is_N_witness:
  "StratifiedSampler_init [0, 0, 0, 0, 1, 1, 1, 1] 2
     = Inr \<lparr>n_splits = 4, class_vector = [0, 0, 0, 0, 1, 1, 1, 1]\<rparr>
   \<and> sampler_len \<lparr>n_splits = 4, class_vector = [0, 0, 0, 0, 1, 1, 1, 1]\<rparr> = 8
   \<and> sampler_len \<lparr>n_splits = 0, class_vector = [0, 0, 0, 0, 1, 1, 1, 1]\<rparr> = 8"
proof -
  have h: "StratifiedSampler_init [0, 0, 0, 0, 1, 1, 1, 1] 2
             = Inr \<lparr>n_splits = 4, class_vector = [0, 0, 0, 0, 1, 1, 1, 1]\<rparr>"
    by (simp add: init_pos)
  from sampler_len_is_N [OF h] h show ?thesis by simp
qed

section \<open>The sampler: iteration\<close>




text \<open>
  C4. Only the first split of the generator is used, and the sequence returned is that
  split's train indices followed by its test indices, whatever the later splits are.
\<close>

theorem iter_first_split_concat:
  assumes "split \<lparr>sss_n_splits = n_splits self, sss_test_size = Dec 5 (-1)\<rparr>
             (randn (length (class_vector self)) 2) (class_vector self)
           = Inr (train_index, test_index) # later"
  shows "sampler_iter randn split self = Inr (train_index @ test_index)"
  using assms by (simp add: sampler_iter_def gen_sample_array_def next_gen_def hstack_def)

theorem iter_first_split_concat_witness:
  "split_halves \<lparr>sss_n_splits = 4, sss_test_size = Dec 5 (-1)\<rparr>
       (randn_zero 8 2) [0, 0, 0, 0, 1, 1, 1, 1]
     = Inr ([4, 5, 6, 7], [0, 1, 2, 3]) # replicate 3 (Inr ([4, 5, 6, 7], [0, 1, 2, 3]))
   \<and> sampler_iter randn_zero split_halves
        \<lparr>n_splits = 4, class_vector = [0, 0, 0, 0, 1, 1, 1, 1]\<rparr>
     = Inr [4, 5, 6, 7, 0, 1, 2, 3]"
proof -
  let ?self = "\<lparr>n_splits = 4, class_vector = [0, 0, 0, 0, 1, 1, 1, 1]\<rparr>"
  have a: "split_halves \<lparr>sss_n_splits = 4, sss_test_size = Dec 5 (-1)\<rparr>
       (randn_zero 8 2) [0, 0, 0, 0, 1, 1, 1, 1]
     = Inr ([4, 5, 6, 7], [0, 1, 2, 3]) # replicate 3 (Inr ([4, 5, 6, 7], [0, 1, 2, 3]))"
    by code_simp
  have h: "split_halves \<lparr>sss_n_splits = n_splits ?self, sss_test_size = Dec 5 (-1)\<rparr>
       (randn_zero (length (class_vector ?self)) 2) (class_vector ?self)
     = Inr ([4, 5, 6, 7], [0, 1, 2, 3]) # replicate 3 (Inr ([4, 5, 6, 7], [0, 1, 2, 3]))"
    by code_simp
  from iter_first_split_concat
         [where split = split_halves and randn = randn_zero and self = ?self, OF h]
  have b: "sampler_iter randn_zero split_halves ?self = Inr [4, 5, 6, 7, 0, 1, 2, 3]"
    by simp
  from a b show ?thesis by (rule conjI)
qed




section \<open>Running a program\<close>

lemma bindP_Inr_iff:
  "bindP m f w = (Inr v, w', t) \<longleftrightarrow>
     (\<exists>a w1 t1 t2. m w = (Inr a, w1, t1) \<and> f a w1 = (Inr v, w', t2) \<and> t = t1 @ t2)"
  by (auto simp: bindP_def split: prod.splits sum.splits)

lemma callP_Inr_iff:
  "callP c d w = (Inr a, w1, t) \<longleftrightarrow> d w = (Inr a, w1) \<and> t = [(c, None)]"
  by (auto simp: callP_def outcome_def split: prod.splits)

lemma stepP_Inr_iff:
  "stepP c r w = (Inr a, w1, t) \<longleftrightarrow> r = Inr a \<and> w1 = w \<and> t = [(c, None)]"
  by (auto simp: stepP_def outcome_def)

lemma printP_iff:
  "printP p w = (r, w1, t) \<longleftrightarrow> r = Inr () \<and> w1 = w \<and> t = [(Print p, None)]"
  by (auto simp: printP_def)

lemma retP_iff:
  "retP a w = (r, w1, t) \<longleftrightarrow> r = Inr a \<and> w1 = w \<and> t = []"
  by (auto simp: retP_def)

lemma index0_Inr_iff: "index0 xs = Inr x \<longleftrightarrow> (\<exists>rest. xs = x # rest)"
  by (auto simp: index0_def split: list.splits)

lemma getitem_Inr_iff: "getitem d k = Inr v \<longleftrightarrow> map_of d k = Some v"
  by (auto simp: getitem_def split: option.splits)

lemma index0_Inr_iff2: "Inr x = index0 xs \<longleftrightarrow> (\<exists>rest. xs = x # rest)"
  by (auto simp: index0_def split: list.splits)

lemma getitem_Inr_iff2: "Inr v = getitem d k \<longleftrightarrow> map_of d k = Some v"
  by (auto simp: getitem_def split: option.splits)

lemma objective_success:
  assumes "objective C trial w = (Inr v, w', t)"
  shows "\<exists>first rest w1 cv sampler trainer model test_loader n_dims batch_size lr wa wb wc
           train_df1 val_df1 test_df1 train_df2 val_df2 test_df2
           train_target val_target test_target train_dataset val_dataset test_dataset
           train_loader val_loader f1_check logger.
      t = map (\<lambda>c. (c, None))
        [SuggestInt trial ''n_dims'' 768 4608 True,
         SuggestCategorical trial ''batch_size'' [32, 64, 128],
         SuggestLoguniform trial ''lr'' (Dec 1 (-5)) (Dec 1 (-3)),
         Print (PDict [(''n_dims'', IntV n_dims), (''batch_size'', IntV batch_size),
                       (''lr'', FloatV lr)]),
         LoadAndSplitData,
         NewEmbeddingDataset train_df1 train_df2 train_target,
         NewEmbeddingDataset val_df1 val_df2 val_target,
         NewEmbeddingDataset test_df1 test_df2 test_target,
         TorchTensor train_target,
         NewStratifiedSampler cv batch_size,
         NewDataLoader train_dataset batch_size (Some sampler),
         NewDataLoader val_dataset batch_size None,
         NewDataLoader test_dataset batch_size None,
         NewSimilarityModel 1536 n_dims (Dec 5 (-1)) lr,
         NewModelCheckpoint ''val_f1'' ''checkpoints_stratified''
           (''similarity-model-'' @ str_int n_dims @ ''-'' @ str_int batch_size
              @ ''-{epoch:02d}-{val_loss:.2f}-{val_recall:.2f}-{val_f1:.2f}'') 1 ''max'',
         NewTensorBoardLogger ''tb_stratified''
           (''similarity-model-'' @ str_int n_dims @ ''-'' @ str_int batch_size),
         LogHyperparams logger
           [(''embedding_size'', IntV 1536), (''dropout_fraction'', FloatV (Dec 5 (-1))),
            (''batch_size'', IntV batch_size), (''lr'', FloatV lr), (''n_dims'', IntV n_dims)],
         NewTrainer 400 logger [f1_check],
         Fit trainer model train_loader val_loader,
         Test trainer model test_loader,
         Subscript0,
         Print (PKeys (map fst first)),
         SubscriptKey ''test_f1'']
    \<and> trial_suggest_int C trial ''n_dims'' 768 4608 True w = (Inr n_dims, wa)
    \<and> trial_suggest_categorical C trial ''batch_size'' [32, 64, 128] wa = (Inr batch_size, wb)
    \<and> trial_suggest_loguniform C trial ''lr'' (Dec 1 (-5)) (Dec 1 (-3)) wb = (Inr lr, wc)
    \<and> StratifiedSampler_init cv batch_size = Inr sampler
    \<and> trainer_test C trainer model test_loader w1 = (Inr (first # rest), w')
    \<and> map_of first ''test_f1'' = Some v"
  using assms unfolding objective_def Let_def
  apply (clarsimp simp del: str_nat.simps
      simp add: bindP_Inr_iff callP_Inr_iff stepP_Inr_iff printP_iff retP_iff
        index0_Inr_iff getitem_Inr_iff index0_Inr_iff2 getitem_Inr_iff2)
  apply blast
  done

lemma every_step_bindP:
  "every_step P m \<Longrightarrow> (\<And>a. every_step P (f a)) \<Longrightarrow> every_step P (bindP m f)"
  by (auto simp: every_step_def bindP_def split: prod.splits sum.splits)
     (metis snd_conv)+

lemma every_step_callP: "(\<And>o'. P (c, o')) \<Longrightarrow> every_step P (callP c d)"
  by (simp add: every_step_def callP_def split: prod.splits)

lemma every_step_stepP: "P (c, outcome r) \<Longrightarrow> every_step P (stepP c r)"
  by (simp add: every_step_def stepP_def)

lemma every_step_printP: "P (Print p, None) \<Longrightarrow> every_step P (printP p)"
  by (simp add: every_step_def printP_def)

lemma every_step_retP: "every_step P (retP a)"
  by (simp add: every_step_def retP_def)

lemma every_step_case_prod:
  "(\<And>x y. every_step P (f x y)) \<Longrightarrow> every_step P (case_prod f a)"
  by (cases a) simp

lemmas every_step_intros =
  every_step_bindP every_step_callP every_step_stepP every_step_printP every_step_retP
  every_step_case_prod

lemma objective_sampling_steps:
  "every_step (\<lambda>x. case fst x of
        SuggestInt tr name low high logscale \<Rightarrow>
          name = ''n_dims'' \<and> low = 1536 div 2 \<and> high = 1536 * 3 \<and> logscale
      | SuggestCategorical tr name choices \<Rightarrow>
          name = ''batch_size'' \<and> choices = [32, 64, 128]
      | SuggestLoguniform tr name low high \<Rightarrow>
          name = ''lr'' \<and> low = Dec 1 (-5) \<and> high = Dec 1 (-3)
      | NewSimilarityModel embedding_size n_dims dropout_fraction lr \<Rightarrow>
          embedding_size = 1536 \<and> dropout_fraction = Dec 5 (-1)
      | _ \<Rightarrow> True) (objective C trial)"
  unfolding objective_def Let_def
  by (intro every_step_intros) simp_all









section \<open>Running the doubles\<close>

lemma str_int_1536: "str_int 1536 = ''1536''"
  by code_simp

lemma str_int_32: "str_int 32 = ''32''"
  by code_simp

lemma init_stub_labels:
  "StratifiedSampler_init (replicate 32 0 @ replicate 32 1) 32
     = Inr \<lparr>n_splits = 2, class_vector = replicate 32 0 @ replicate 32 1\<rparr>"
  by (simp add: init_pos)

lemmas run_defs =
  objective_def Let_def bindP_def callP_def stepP_def printP_def retP_def outcome_def
  index0_def getitem_def str_int_1536 str_int_32 init_stub_labels

lemma objective_stub:
  "objective stub trial w =
     (Inr (Dec 75 (-2)), Suc w, map (\<lambda>c. (c, None))
        [SuggestInt trial ''n_dims'' 768 4608 True,
         SuggestCategorical trial ''batch_size'' [32, 64, 128],
         SuggestLoguniform trial ''lr'' (Dec 1 (-5)) (Dec 1 (-3)),
         Print (PDict [(''n_dims'', IntV 1536), (''batch_size'', IntV 32),
                       (''lr'', FloatV (Dec 1 (-4)))]),
         LoadAndSplitData,
         NewEmbeddingDataset (Ref 1) (Ref 4) (Ref 7),
         NewEmbeddingDataset (Ref 2) (Ref 5) (Ref 8),
         NewEmbeddingDataset (Ref 3) (Ref 6) (Ref 9),
         TorchTensor (Ref 7),
         NewStratifiedSampler (replicate 32 0 @ replicate 32 1) 32,
         NewDataLoader (Ref 17) 32
           (Some \<lparr>n_splits = 2, class_vector = replicate 32 0 @ replicate 32 1\<rparr>),
         NewDataLoader (Ref 18) 32 None,
         NewDataLoader (Ref 19) 32 None,
         NewSimilarityModel 1536 1536 (Dec 5 (-1)) (Dec 1 (-4)),
         NewModelCheckpoint ''val_f1'' ''checkpoints_stratified''
           ''similarity-model-1536-32-{epoch:02d}-{val_loss:.2f}-{val_recall:.2f}-{val_f1:.2f}''
           1 ''max'',
         NewTensorBoardLogger ''tb_stratified'' ''similarity-model-1536-32'',
         LogHyperparams (Ref 42)
           [(''embedding_size'', IntV 1536), (''dropout_fraction'', FloatV (Dec 5 (-1))),
            (''batch_size'', IntV 32), (''lr'', FloatV (Dec 1 (-4))), (''n_dims'', IntV 1536)],
         NewTrainer 400 (Ref 42) [Ref 41],
         Fit (Ref 43) (Ref 40) (Ref 27) (Ref 28),
         Test (Ref 43) (Ref 40) (Ref 29),
         Subscript0,
         Print (PKeys [''test_loss'', ''test_f1'']),
         SubscriptKey ''test_f1''])"
  by (simp add: run_defs stub_def del: replicate_append_same)









section \<open>The objective: what it samples, trains and returns\<close>

lemma run_collapse: "m w = (fst (m w), fst (snd (m w)), snd (snd (m w)))"
  by simp

lemma every_stepD: "every_step P m \<Longrightarrow> list_all P (snd (snd (m w)))"
  by (simp add: every_step_def)


text \<open>
  C5. In every run, whatever is sampled is sampled as the source writes it: \<open>n_dims\<close> as
  an integer on a log scale between \<open>1536 div 2\<close> and \<open>1536 * 3\<close>, \<open>batch_size\<close> among
  32, 64 and 128, \<open>lr\<close> log-uniformly between \<open>1e-5\<close> and \<open>1e-3\<close>; and any model is built
  with \<open>embedding_size = 1536\<close> and \<open>dropout_fraction = 0.5\<close>. In a run that returns, these
  three suggestions are the first three steps, nothing else is sampled, and the one
  model built gets the two constants with the sampled \<open>n_dims\<close> and \<open>lr\<close>.
\<close>

theorem objective_hyperparameters:
  "list_all (\<lambda>x. case fst x of
        SuggestInt tr name low high logscale \<Rightarrow>
          name = ''n_dims'' \<and> low = 1536 div 2 \<and> high = 1536 * 3 \<and> logscale
      | SuggestCategorical tr name choices \<Rightarrow>
          name = ''batch_size'' \<and> choices = [32, 64, 128]
      | SuggestLoguniform tr name low high \<Rightarrow>
          name = ''lr'' \<and> low = Dec 1 (-5) \<and> high = Dec 1 (-3)
      | NewSimilarityModel embedding_size n_dims dropout_fraction lr \<Rightarrow>
          embedding_size = 1536 \<and> dropout_fraction = Dec 5 (-1)
      | _ \<Rightarrow> True) (snd (snd (objective C trial w)))
   \<and> (\<forall>v. fst (objective C trial w) = Inr v \<longrightarrow>
        (\<exists>n_dims batch_size lr wa wb wc.
            trial_suggest_int C trial ''n_dims'' 768 4608 True w = (Inr n_dims, wa)
          \<and> trial_suggest_categorical C trial ''batch_size'' [32, 64, 128] wa
              = (Inr batch_size, wb)
          \<and> trial_suggest_loguniform C trial ''lr'' (Dec 1 (-5)) (Dec 1 (-3)) wb = (Inr lr, wc)
          \<and> filter (\<lambda>c. is_SuggestInt c \<or> is_SuggestCategorical c \<or> is_SuggestLoguniform c)
               (map fst (snd (snd (objective C trial w))))
              = [SuggestInt trial ''n_dims'' 768 4608 True,
                 SuggestCategorical trial ''batch_size'' [32, 64, 128],
                 SuggestLoguniform trial ''lr'' (Dec 1 (-5)) (Dec 1 (-3))]
          \<and> take 3 (map fst (snd (snd (objective C trial w))))
              = [SuggestInt trial ''n_dims'' 768 4608 True,
                 SuggestCategorical trial ''batch_size'' [32, 64, 128],
                 SuggestLoguniform trial ''lr'' (Dec 1 (-5)) (Dec 1 (-3))]
          \<and> filter is_NewSimilarityModel (map fst (snd (snd (objective C trial w))))
              = [NewSimilarityModel 1536 n_dims (Dec 5 (-1)) lr]))"
proof (intro conjI allI impI)
  show "list_all (\<lambda>x. case fst x of
        SuggestInt tr name low high logscale \<Rightarrow>
          name = ''n_dims'' \<and> low = 1536 div 2 \<and> high = 1536 * 3 \<and> logscale
      | SuggestCategorical tr name choices \<Rightarrow>
          name = ''batch_size'' \<and> choices = [32, 64, 128]
      | SuggestLoguniform tr name low high \<Rightarrow>
          name = ''lr'' \<and> low = Dec 1 (-5) \<and> high = Dec 1 (-3)
      | NewSimilarityModel embedding_size n_dims dropout_fraction lr \<Rightarrow>
          embedding_size = 1536 \<and> dropout_fraction = Dec 5 (-1)
      | _ \<Rightarrow> True) (snd (snd (objective C trial w)))"
    by (rule every_stepD [OF objective_sampling_steps])
next
  fix v assume "fst (objective C trial w) = Inr v"
  then have run: "objective C trial w
      = (Inr v, fst (snd (objective C trial w)), snd (snd (objective C trial w)))"
    using run_collapse [of "objective C trial" w] by simp
  from objective_success [OF run]
  show "\<exists>n_dims batch_size lr wa wb wc.
            trial_suggest_int C trial ''n_dims'' 768 4608 True w = (Inr n_dims, wa)
          \<and> trial_suggest_categorical C trial ''batch_size'' [32, 64, 128] wa
              = (Inr batch_size, wb)
          \<and> trial_suggest_loguniform C trial ''lr'' (Dec 1 (-5)) (Dec 1 (-3)) wb = (Inr lr, wc)
          \<and> filter (\<lambda>c. is_SuggestInt c \<or> is_SuggestCategorical c \<or> is_SuggestLoguniform c)
               (map fst (snd (snd (objective C trial w))))
              = [SuggestInt trial ''n_dims'' 768 4608 True,
                 SuggestCategorical trial ''batch_size'' [32, 64, 128],
                 SuggestLoguniform trial ''lr'' (Dec 1 (-5)) (Dec 1 (-3))]
          \<and> take 3 (map fst (snd (snd (objective C trial w))))
              = [SuggestInt trial ''n_dims'' 768 4608 True,
                 SuggestCategorical trial ''batch_size'' [32, 64, 128],
                 SuggestLoguniform trial ''lr'' (Dec 1 (-5)) (Dec 1 (-3))]
          \<and> filter is_NewSimilarityModel (map fst (snd (snd (objective C trial w))))
              = [NewSimilarityModel 1536 n_dims (Dec 5 (-1)) lr]"
    apply (elim exE conjE)
    apply (simp del: str_nat.simps)
    done
qed

theorem objective_hyperparameters_witness:
  "fst (objective stub (Ref 100) 0) = Inr (Dec 75 (-2))
   \<and> filter is_NewSimilarityModel (map fst (snd (snd (objective stub (Ref 100) 0))))
       = [NewSimilarityModel 1536 1536 (Dec 5 (-1)) (Dec 1 (-4))]
   \<and> (\<exists>n_dims batch_size lr wa wb wc.
            trial_suggest_int stub (Ref 100) ''n_dims'' 768 4608 True 0 = (Inr n_dims, wa)
          \<and> trial_suggest_categorical stub (Ref 100) ''batch_size'' [32, 64, 128] wa
              = (Inr batch_size, wb)
          \<and> trial_suggest_loguniform stub (Ref 100) ''lr'' (Dec 1 (-5)) (Dec 1 (-3)) wb = (Inr lr, wc)
          \<and> filter (\<lambda>c. is_SuggestInt c \<or> is_SuggestCategorical c \<or> is_SuggestLoguniform c)
               (map fst (snd (snd (objective stub (Ref 100) 0))))
              = [SuggestInt (Ref 100) ''n_dims'' 768 4608 True,
                 SuggestCategorical (Ref 100) ''batch_size'' [32, 64, 128],
                 SuggestLoguniform (Ref 100) ''lr'' (Dec 1 (-5)) (Dec 1 (-3))]
          \<and> take 3 (map fst (snd (snd (objective stub (Ref 100) 0))))
              = [SuggestInt (Ref 100) ''n_dims'' 768 4608 True,
                 SuggestCategorical (Ref 100) ''batch_size'' [32, 64, 128],
                 SuggestLoguniform (Ref 100) ''lr'' (Dec 1 (-5)) (Dec 1 (-3))]
          \<and> filter is_NewSimilarityModel (map fst (snd (snd (objective stub (Ref 100) 0))))
              = [NewSimilarityModel 1536 n_dims (Dec 5 (-1)) lr])"
proof -
  have h: "fst (objective stub (Ref 100) 0) = Inr (Dec 75 (-2))"
    by (simp add: objective_stub)
  have a: "filter is_NewSimilarityModel (map fst (snd (snd (objective stub (Ref 100) 0))))
       = [NewSimilarityModel 1536 1536 (Dec 5 (-1)) (Dec 1 (-4))]"
    by (simp add: objective_stub)
  from objective_hyperparameters [of stub "Ref 100" 0] h
  have b: "(\<exists>n_dims batch_size lr wa wb wc.
            trial_suggest_int stub (Ref 100) ''n_dims'' 768 4608 True 0 = (Inr n_dims, wa)
          \<and> trial_suggest_categorical stub (Ref 100) ''batch_size'' [32, 64, 128] wa
              = (Inr batch_size, wb)
          \<and> trial_suggest_loguniform stub (Ref 100) ''lr'' (Dec 1 (-5)) (Dec 1 (-3)) wb = (Inr lr, wc)
          \<and> filter (\<lambda>c. is_SuggestInt c \<or> is_SuggestCategorical c \<or> is_SuggestLoguniform c)
               (map fst (snd (snd (objective stub (Ref 100) 0))))
              = [SuggestInt (Ref 100) ''n_dims'' 768 4608 True,
                 SuggestCategorical (Ref 100) ''batch_size'' [32, 64, 128],
                 SuggestLoguniform (Ref 100) ''lr'' (Dec 1 (-5)) (Dec 1 (-3))]
          \<and> take 3 (map fst (snd (snd (objective stub (Ref 100) 0))))
              = [SuggestInt (Ref 100) ''n_dims'' 768 4608 True,
                 SuggestCategorical (Ref 100) ''batch_size'' [32, 64, 128],
                 SuggestLoguniform (Ref 100) ''lr'' (Dec 1 (-5)) (Dec 1 (-3))]
          \<and> filter is_NewSimilarityModel (map fst (snd (snd (objective stub (Ref 100) 0))))
              = [NewSimilarityModel 1536 n_dims (Dec 5 (-1)) lr])"
    by blast
  from h a b show ?thesis by (intro conjI)
qed





section \<open>The objective: faults\<close>







section \<open>The search driver: trials and report\<close>




end
